theory Spec2Isabelle
  imports Main "HOL-Library.Word"
begin

section \<open>Values\<close>

text \<open>
  The script \<^verbatim>\<open>index.py\<close> fetches one search page, decodes its body as JSON and reads
  three fields of the first document. Every value it handles after decoding is a decoded
  JSON value, so the Python objects are modelled by the JSON datatype: \<open>None\<close>, booleans,
  integers, floats, strings, lists and dictionaries. A dictionary keeps its insertion
  order (iteration visits the keys in that order), so it is an association list; the
  decoder produces it with distinct keys. The program never looks inside a float:
  a float is the 64 bits of its IEEE 754 double.

  A Python string is the list of its code points, so that \<open>length\<close> is Python's \<open>len\<close>
  and a string can hold whatever a JSON escape decodes to, a lone surrogate such as
  \<open>0xD800\<close> included. \<open>lit\<close> gives the string of an ASCII literal of the source.
\<close>

type_synonym pyfloat = "64 word"

type_synonym pystr = "nat list"

definition lit :: "string \<Rightarrow> pystr" where
  "lit cs = map of_char cs"

datatype json =
    JNull
  | JBool bool
  | JInt int
  | JFloat pyfloat
  | JStr pystr
  | JArr "json list"
  | JObj "(pystr \<times> json) list"

text \<open>
  The exceptions that end the script. None of them is caught anywhere. \<open>print\<close> is the one
  statement that writes, so only its exception can leave text behind: it carries what
  standard output holds when the script dies.
\<close>

datatype error =
    AttributeError
  | TypeError
  | IndexError
  | KeyError
  | NameError
  | JSONDecodeError
  | ConnectionError
  | UnicodeEncodeError pystr

definition bind_err :: "error + 'a \<Rightarrow> ('a \<Rightarrow> error + 'b) \<Rightarrow> error + 'b" where
  "bind_err m f = (case m of Inl e \<Rightarrow> Inl e | Inr v \<Rightarrow> f v)"

section \<open>The built-in operations the script applies\<close>

text \<open>
  \<^verbatim>\<open>x.get(key)\<close>: only a dictionary has the method; a missing key gives \<open>None\<close>, it does not
  raise.
\<close>

fun py_get :: "json \<Rightarrow> pystr \<Rightarrow> error + json" where
  "py_get (JObj kvs) key = Inr (case map_of kvs key of None \<Rightarrow> JNull | Some v \<Rightarrow> v)"
| "py_get _ key = Inl AttributeError"

text \<open>
  \<^verbatim>\<open>x[0]\<close>: the first element of a list, the first character of a string, \<open>IndexError\<close> when
  either is empty; a dictionary is looked up at the key \<open>0\<close>, which no decoded dictionary
  has (its keys are strings); \<open>None\<close>, booleans and numbers are not subscriptable.
\<close>

fun py_getitem0 :: "json \<Rightarrow> error + json" where
  "py_getitem0 (JArr []) = Inl IndexError"
| "py_getitem0 (JArr (v # vs)) = Inr v"
| "py_getitem0 (JStr []) = Inl IndexError"
| "py_getitem0 (JStr (c # cs)) = Inr (JStr [c])"
| "py_getitem0 (JObj kvs) = Inl KeyError"
| "py_getitem0 _ = Inl TypeError"

text \<open>\<^verbatim>\<open>len(x)\<close>: defined on strings, lists and dictionaries.\<close>

fun py_len :: "json \<Rightarrow> error + nat" where
  "py_len (JStr cs) = Inr (length cs)"
| "py_len (JArr vs) = Inr (length vs)"
| "py_len (JObj kvs) = Inr (length kvs)"
| "py_len _ = Inl TypeError"

text \<open>
  \<^verbatim>\<open>for i in x\<close> first asks \<open>x\<close> for its elements: those of a list, the characters of a
  string, the keys of a dictionary; anything else is not iterable.
\<close>

fun py_iter :: "json \<Rightarrow> error + json list" where
  "py_iter (JArr vs) = Inr vs"
| "py_iter (JStr cs) = Inr (map (\<lambda>c. JStr [c]) cs)"
| "py_iter (JObj kvs) = Inr (map (\<lambda>kv. JStr (fst kv)) kvs)"
| "py_iter _ = Inl TypeError"

text \<open>
  \<^verbatim>\<open>str(x)\<close>, which \<open>print\<close> applies to each argument: a string is written as it is, \<open>None\<close>
  and the booleans by their names. For numbers and containers \<open>str\<close> is the built-in
  \<open>repr\<close>, which enters as a parameter.
\<close>

fun py_str :: "(json \<Rightarrow> pystr) \<Rightarrow> json \<Rightarrow> pystr" where
  "py_str repr (JStr cs) = cs"
| "py_str repr JNull = lit ''None''"
| "py_str repr (JBool b) = (if b then lit ''True'' else lit ''False'')"
| "py_str repr v = repr v"

text \<open>
  Standard output is a text stream with an encoding and an error handler, which the
  environment chooses. They enter as a parameter \<open>enc\<close>: the code points beyond ASCII the
  stream can encode (every encoding of a Python text stream encodes the ASCII code
  points). A write encodes the whole string it is given: it appends it to the stream, or
  raises \<open>UnicodeEncodeError\<close> and appends nothing of it.
\<close>

definition encodable :: "(nat \<Rightarrow> bool) \<Rightarrow> pystr \<Rightarrow> bool" where
  "encodable enc cs = list_all (\<lambda>c. c < 128 \<or> enc c) cs"

definition py_write :: "(nat \<Rightarrow> bool) \<Rightarrow> pystr \<Rightarrow> pystr \<Rightarrow> error + pystr" where
  "py_write enc txt out =
     (if encodable enc txt then Inr (out @ txt) else Inl (UnicodeEncodeError out))"

fun write_all :: "(nat \<Rightarrow> bool) \<Rightarrow> pystr list \<Rightarrow> pystr \<Rightarrow> error + pystr" where
  "write_all enc [] out = Inr out"
| "write_all enc (txt # txts) out = bind_err (py_write enc txt out) (write_all enc txts)"

text \<open>The strings \<open>print\<close> writes between its arguments: the separator before each but the first.\<close>

fun separated :: "pystr \<Rightarrow> pystr list \<Rightarrow> pystr list" where
  "separated sep [] = []"
| "separated sep [x] = [x]"
| "separated sep (x # y # ys) = x # sep # separated sep (y # ys)"

text \<open>
  \<^verbatim>\<open>print(*args, sep=..., end=...)\<close>, from what standard output holds to what it holds
  afterwards: one write for each argument as \<open>str\<close> renders it, one for the separator
  between two arguments, one for the end, in that order. The first write that fails ends
  the script; what was written before stays.
\<close>

definition py_print ::
    "(nat \<Rightarrow> bool) \<Rightarrow> (json \<Rightarrow> pystr) \<Rightarrow> json list \<Rightarrow> pystr \<Rightarrow> pystr \<Rightarrow> pystr \<Rightarrow> error + pystr" where
  "py_print enc repr args sep ending out =
     write_all enc (separated sep (map (py_str repr) args) @ [ending]) out"

definition newline :: pystr where
  "newline = [10]"

section \<open>The state of the script\<close>

text \<open>
  The script runs at module level: its variables are the module's globals, unbound until
  assigned (\<open>None\<close> below means unbound, reading it raises \<open>NameError\<close>). The loop variable
  \<^verbatim>\<open>i\<close> is the field \<open>loop_i\<close>. Standard output is part of the state. The URL is an ASCII
  literal and the body of a response is bytes: both are byte strings.
\<close>

record http_response =
  status_code :: nat
  content :: string

record state =
  url :: "string option"
  response :: "http_response option"
  data :: "json option"
  first_result :: "json option"
  book_title :: "json option"
  author_name :: "json option"
  isbn_string :: "json option"
  isbn_results :: "json option"
  loop_i :: "json option"
  stdout :: pystr

definition read :: "(state \<Rightarrow> 'a option) \<Rightarrow> state \<Rightarrow> error + 'a" where
  "read var s = (case var s of None \<Rightarrow> Inl NameError | Some v \<Rightarrow> Inr v)"

definition unbound :: state where
  "unbound = \<lparr>url = None, response = None, data = None, first_result = None,
     book_title = None, author_name = None, isbn_string = None, isbn_results = None,
     loop_i = None, stdout = []\<rparr>"

section \<open>The statements, in the order of the source\<close>

text \<open>\<^verbatim>\<open>url = "https://openlibrary.org/search.json?q=clans+of+the+alphane+moon"\<close>\<close>

definition search_url :: string where
  "search_url = ''https://openlibrary.org/search.json?q=clans+of+the+alphane+moon''"

definition stmt_url :: "state \<Rightarrow> error + state" where
  "stmt_url s = Inr (s\<lparr>url := Some search_url\<rparr>)"

text \<open>
  \<^verbatim>\<open>response = requests.get(url)\<close>. The network is a parameter: what a GET of a URL
  answers, a response or a transport failure.
\<close>

definition stmt_response :: "(string \<Rightarrow> error + http_response) \<Rightarrow> state \<Rightarrow> error + state" where
  "stmt_response net s =
     bind_err (read url s) (\<lambda>u.
     bind_err (net u) (\<lambda>r.
     Inr (s\<lparr>response := Some r\<rparr>)))"

text \<open>
  \<^verbatim>\<open>data = response.json()\<close>. The JSON decoder of the library is a parameter, a function
  of the body; the status code is not consulted.
\<close>

definition stmt_data :: "(string \<Rightarrow> error + json) \<Rightarrow> state \<Rightarrow> error + state" where
  "stmt_data loads s =
     bind_err (read response s) (\<lambda>r.
     bind_err (loads (content r)) (\<lambda>d.
     Inr (s\<lparr>data := Some d\<rparr>)))"

text \<open>\<^verbatim>\<open>first_result = data.get("docs")[0]\<close>\<close>

definition stmt_first_result :: "state \<Rightarrow> error + state" where
  "stmt_first_result s =
     bind_err (read data s) (\<lambda>d.
     bind_err (py_get d (lit ''docs'')) (\<lambda>docs.
     bind_err (py_getitem0 docs) (\<lambda>v.
     Inr (s\<lparr>first_result := Some v\<rparr>))))"

text \<open>\<^verbatim>\<open>book_title = first_result.get("title")\<close>\<close>

definition stmt_book_title :: "state \<Rightarrow> error + state" where
  "stmt_book_title s =
     bind_err (read first_result s) (\<lambda>fr.
     bind_err (py_get fr (lit ''title'')) (\<lambda>v.
     Inr (s\<lparr>book_title := Some v\<rparr>)))"

text \<open>\<^verbatim>\<open>author_name = first_result.get("author_name")[0]\<close>\<close>

definition stmt_author_name :: "state \<Rightarrow> error + state" where
  "stmt_author_name s =
     bind_err (read first_result s) (\<lambda>fr.
     bind_err (py_get fr (lit ''author_name'')) (\<lambda>names.
     bind_err (py_getitem0 names) (\<lambda>v.
     Inr (s\<lparr>author_name := Some v\<rparr>))))"

text \<open>\<^verbatim>\<open>isbn_string = ""\<close>\<close>

definition stmt_isbn_string :: "state \<Rightarrow> error + state" where
  "stmt_isbn_string s = Inr (s\<lparr>isbn_string := Some (JStr [])\<rparr>)"

text \<open>\<^verbatim>\<open>isbn_results = first_result.get("isbn")\<close>\<close>

definition stmt_isbn_results :: "state \<Rightarrow> error + state" where
  "stmt_isbn_results s =
     bind_err (read first_result s) (\<lambda>fr.
     bind_err (py_get fr (lit ''isbn'')) (\<lambda>v.
     Inr (s\<lparr>isbn_results := Some v\<rparr>)))"

text \<open>
  The loop over the elements still to visit:
  \<^verbatim>\<open>
  for i in isbn_results:
      if len(i) == 10:
          isbn_string = i
          break
  \<close>
  Each round binds \<^verbatim>\<open>i\<close>, then tests its length; \<^verbatim>\<open>break\<close> leaves the rest unvisited.
\<close>

fun for_loop :: "json list \<Rightarrow> state \<Rightarrow> error + state" where
  "for_loop [] s = Inr s"
| "for_loop (x # xs) s =
     bind_err (py_len x) (\<lambda>n.
     if n = 10 then Inr (s\<lparr>loop_i := Some x, isbn_string := Some x\<rparr>)
     else for_loop xs (s\<lparr>loop_i := Some x\<rparr>))"

definition stmt_for :: "state \<Rightarrow> error + state" where
  "stmt_for s =
     bind_err (read isbn_results s) (\<lambda>r.
     bind_err (py_iter r) (\<lambda>xs.
     for_loop xs s))"

text \<open>\<^verbatim>\<open>print(book_title, author_name, isbn_string, sep='\n')\<close>; \<open>end\<close> keeps its default.\<close>

definition stmt_print :: "(nat \<Rightarrow> bool) \<Rightarrow> (json \<Rightarrow> pystr) \<Rightarrow> state \<Rightarrow> error + state" where
  "stmt_print enc repr s =
     bind_err (read book_title s) (\<lambda>t.
     bind_err (read author_name s) (\<lambda>a.
     bind_err (read isbn_string s) (\<lambda>i.
     bind_err (py_print enc repr [t, a, i] newline newline (stdout s)) (\<lambda>out.
     Inr (s\<lparr>stdout := out\<rparr>)))))"

section \<open>The script\<close>

text \<open>Statements run in sequence; the first exception ends the run.\<close>

fun run :: "(state \<Rightarrow> error + state) list \<Rightarrow> state \<Rightarrow> error + state" where
  "run [] s = Inr s"
| "run (c # cs) s = bind_err (c s) (run cs)"

text \<open>Lines 14 to 19: the scan for a ten-character identifier.\<close>

definition isbn_scan :: "(state \<Rightarrow> error + state) list" where
  "isbn_scan = [stmt_isbn_string, stmt_isbn_results, stmt_for]"

text \<open>Lines 8 to 19: the extraction of the three fields from the decoded body.\<close>

definition extractor :: "(state \<Rightarrow> error + state) list" where
  "extractor = [stmt_first_result, stmt_book_title, stmt_author_name] @ isbn_scan"

definition extract_fields :: "json \<Rightarrow> state \<Rightarrow> error + state" where
  "extract_fields d s = run extractor (s\<lparr>data := Some d\<rparr>)"

text \<open>Lines 7 to 19: decoding the body of a response, then extracting.\<close>

definition decode_extract :: "(string \<Rightarrow> error + json) \<Rightarrow> http_response \<Rightarrow> state \<Rightarrow> error + state" where
  "decode_extract loads r s = run (stmt_data loads # extractor) (s\<lparr>response := Some r\<rparr>)"

text \<open>The whole file.\<close>

definition main :: "(string \<Rightarrow> error + http_response) \<Rightarrow> (string \<Rightarrow> error + json) \<Rightarrow>
    (nat \<Rightarrow> bool) \<Rightarrow> (json \<Rightarrow> pystr) \<Rightarrow> state \<Rightarrow> error + state" where
  "main net loads enc repr s =
     run ([stmt_url, stmt_response net, stmt_data loads] @ extractor @ [stmt_print enc repr]) s"

text \<open>The three extracted values, or the exception.\<close>

definition triple :: "error + state \<Rightarrow> error + (json option \<times> json option \<times> json option)" where
  "triple r = (case r of Inl e \<Rightarrow> Inl e
     | Inr s \<Rightarrow> Inr (book_title s, author_name s, isbn_string s))"

text \<open>
  The lines of a text, each ended by a line break (a last line may lack it); \<open>cur\<close> is
  the line being read.
\<close>

fun split_lines :: "pystr \<Rightarrow> pystr \<Rightarrow> pystr list" where
  "split_lines cur [] = (if cur = [] then [] else [cur])"
| "split_lines cur (c # cs) =
     (if c = 10 then cur # split_lines [] cs else split_lines (cur @ [c]) cs)"

definition lines_of :: "pystr \<Rightarrow> pystr list" where
  "lines_of txt = split_lines [] txt"

text \<open>
  What a run shows to the outside: the exception (that of \<open>print\<close> with what standard
  output holds), or what standard output holds.
\<close>

definition observe :: "error + state \<Rightarrow> error + pystr" where
  "observe r = (case r of Inl e \<Rightarrow> Inl e | Inr s \<Rightarrow> Inr (stdout s))"

section \<open>A sample exchange\<close>

text \<open>
  The answer the search page gives for the book of the fixed query, cut to the fields the
  script reads: the body as text, the value it decodes to, a decoder that knows this body,
  and a network that answers the search URL with this body under a given status code.
\<close>

definition sample_doc :: "(pystr \<times> json) list" where
  "sample_doc =
     [(lit ''title'', JStr (lit ''Clans of the Alphane Moon'')),
      (lit ''author_name'', JArr [JStr (lit ''Philip K. Dick''), JStr (lit ''Someone Else'')]),
      (lit ''isbn'', JArr [JStr (lit ''9780441116805''), JStr (lit ''0441116802'')])]"

definition sample_data :: json where
  "sample_data = JObj [(lit ''numFound'', JInt 1), (lit ''docs'', JArr [JObj sample_doc])]"

definition sample_body :: string where
  \<open>sample_body =
     ''{"numFound": 1, "docs": [{"title": "Clans of the Alphane Moon", '' @
     ''"author_name": ["Philip K. Dick", "Someone Else"], '' @
     ''"isbn": ["9780441116805", "0441116802"]}]}''\<close>

definition sample_loads :: "string \<Rightarrow> error + json" where
  "sample_loads b = (if b = sample_body then Inr sample_data else Inl JSONDecodeError)"

definition sample_net :: "nat \<Rightarrow> string \<Rightarrow> error + http_response" where
  "sample_net code u =
     (if u = search_url then Inr \<lparr>status_code = code, content = sample_body\<rparr>
      else Inl ConnectionError)"

text \<open>A \<open>repr\<close> for runs that print only strings and \<open>None\<close>: it is never consulted.\<close>

definition no_repr :: "json \<Rightarrow> pystr" where
  "no_repr v = []"

text \<open>
  UTF-8 with strict error handling, the encoding of standard output under a UTF-8 locale:
  it encodes every code point but the surrogates.
\<close>

definition utf8_strict :: "nat \<Rightarrow> bool" where
  "utf8_strict c = ((c < 0xD800 \<or> 0xDFFF < c) \<and> c \<le> 0x10FFFF)"

section \<open>Basic facts\<close>

lemma lit_Nil [simp]: "lit [] = []"
  by (simp add: lit_def)

lemma length_lit [simp]: "length (lit cs) = length cs"
  by (simp add: lit_def)

lemma lit_eq_iff [simp]: "lit cs = lit ds \<longleftrightarrow> cs = ds"
proof -
  have "inj (of_char :: char \<Rightarrow> nat)"
    by (rule injI) (simp only: of_char_eq_iff)
  then show ?thesis
    by (simp add: lit_def inj_map_eq_map)
qed

lemma bind_err_simps:
  "bind_err (Inl e) f = Inl e"
  "bind_err (Inr v) f = f v"
  by (simp_all add: bind_err_def)

lemma bind_err_assoc:
  "bind_err (bind_err m f) g = bind_err m (\<lambda>v. bind_err (f v) g)"
  by (cases m) (simp_all add: bind_err_def)

lemma bind_err_run_Nil: "bind_err m (run []) = m"
  by (cases m) (simp_all add: bind_err_def)

lemma run_append: "run (cs @ ds) s = bind_err (run cs s) (run ds)"
  by (induction cs arbitrary: s) (auto simp: bind_err_def split: sum.splits)

lemma sample_loads_body: "sample_loads sample_body = Inr sample_data"
  by (simp add: sample_loads_def)

lemma sample_net_url:
  "sample_net code search_url = Inr \<lparr>status_code = code, content = sample_body\<rparr>"
  by (simp add: sample_net_def)

text \<open>The extractor as one expression of the decoded body.\<close>

lemma run_extractor:
  "run extractor s =
     bind_err (read data s) (\<lambda>d.
     bind_err (py_get d (lit ''docs'')) (\<lambda>docs.
     bind_err (py_getitem0 docs) (\<lambda>fr.
     bind_err (py_get fr (lit ''title'')) (\<lambda>t.
     bind_err (py_get fr (lit ''author_name'')) (\<lambda>names.
     bind_err (py_getitem0 names) (\<lambda>a.
     bind_err (py_get fr (lit ''isbn'')) (\<lambda>r.
     bind_err (py_iter r) (\<lambda>xs.
     for_loop xs (s\<lparr>first_result := Some fr, book_title := Some t, author_name := Some a,
       isbn_string := Some (JStr []), isbn_results := Some r\<rparr>)))))))))"
  by (simp add: extractor_def isbn_scan_def stmt_first_result_def stmt_book_title_def
      stmt_author_name_def stmt_isbn_string_def stmt_isbn_results_def stmt_for_def
      bind_err_def read_def split: sum.splits option.splits)

text \<open>What the loop leaves alone, and what it keeps bound.\<close>

lemma for_loop_keeps:
  "for_loop xs s = Inr s' \<Longrightarrow>
     book_title s' = book_title s \<and> author_name s' = author_name s \<and> stdout s' = stdout s"
proof (induction xs arbitrary: s)
  case Nil
  then show ?case by simp
next
  case (Cons x xs)
  show ?case
  proof (cases "py_len x")
    case (Inl e)
    with Cons.prems show ?thesis by (simp add: bind_err_simps)
  next
    case (Inr n)
    show ?thesis
    proof (cases "n = 10")
      case True
      with Inr Cons.prems show ?thesis by (auto simp: bind_err_simps)
    next
      case False
      with Inr Cons.prems have "for_loop xs (s\<lparr>loop_i := Some x\<rparr>) = Inr s'"
        by (simp add: bind_err_simps)
      from Cons.IH [OF this] show ?thesis by simp
    qed
  qed
qed

lemma for_loop_isbn_bound:
  "for_loop xs s = Inr s' \<Longrightarrow> isbn_string s = Some i \<Longrightarrow> \<exists>i'. isbn_string s' = Some i'"
proof (induction xs arbitrary: s)
  case Nil
  then show ?case by simp
next
  case (Cons x xs)
  show ?case
  proof (cases "py_len x")
    case (Inl e)
    with Cons.prems show ?thesis by (simp add: bind_err_simps)
  next
    case (Inr n)
    show ?thesis
    proof (cases "n = 10")
      case True
      with Inr Cons.prems show ?thesis by (auto simp: bind_err_simps)
    next
      case False
      with Inr Cons.prems have "for_loop xs (s\<lparr>loop_i := Some x\<rparr>) = Inr s'"
        by (simp add: bind_err_simps)
      from Cons.IH [OF this] Cons.prems(2) show ?thesis by simp
    qed
  qed
qed

text \<open>On a sequence of strings the loop never raises; \<open>find\<close> names the element it stops at.\<close>

lemma for_loop_strings:
  "for_loop (map JStr ids) s =
     Inr (case find (\<lambda>x. length x = 10) ids of
            None \<Rightarrow> (if ids = [] then s else s\<lparr>loop_i := Some (JStr (last ids))\<rparr>)
          | Some x \<Rightarrow> s\<lparr>loop_i := Some (JStr x), isbn_string := Some (JStr x)\<rparr>)"
proof (induction ids arbitrary: s)
  case Nil
  show ?case by simp
next
  case (Cons x xs)
  show ?case
  proof (cases "length x = 10")
    case True
    then show ?thesis by (simp add: bind_err_simps)
  next
    case False
    then show ?thesis
      by (simp add: bind_err_simps Cons.IH split: option.splits)
  qed
qed

lemma isbn_scan_strings:
  assumes "first_result s = Some (JObj doc)"
      and "map_of doc (lit ''isbn'') = Some (JArr (map JStr ids))"
  shows "run isbn_scan s =
     for_loop (map JStr ids)
       (s\<lparr>isbn_string := Some (JStr []), isbn_results := Some (JArr (map JStr ids))\<rparr>)"
  using assms
  by (simp add: isbn_scan_def stmt_isbn_string_def stmt_isbn_results_def stmt_for_def
      bind_err_simps bind_err_run_Nil read_def)

lemma stmt_author_name_result:
  assumes "stmt_author_name s = Inr s1"
  shows "\<exists>a. s1 = s\<lparr>author_name := Some a\<rparr>"
  using assms
  by (auto simp: stmt_author_name_def bind_err_def read_def split: sum.splits option.splits)

lemma isbn_scan_result:
  assumes "run isbn_scan s1 = Inr s2"
  shows "book_title s2 = book_title s1 \<and> author_name s2 = author_name s1 \<and>
         stdout s2 = stdout s1 \<and> (\<exists>i. isbn_string s2 = Some i)"
proof -
  from assms obtain r xs where
    loop: "for_loop xs (s1\<lparr>isbn_string := Some (JStr []), isbn_results := Some r\<rparr>) = Inr s2"
    by (auto simp: isbn_scan_def stmt_isbn_string_def stmt_isbn_results_def stmt_for_def
        bind_err_def read_def split: sum.splits option.splits)
  from for_loop_keeps [OF loop] for_loop_isbn_bound [OF loop] show ?thesis by simp
qed

lemma split_lines_line:
  "10 \<notin> set x \<Longrightarrow> split_lines cur (x @ 10 # rest) = (cur @ x) # split_lines [] rest"
  by (induction x arbitrary: cur) auto

text \<open>
  The extracted values depend on the decoded body alone, standard output on the body and
  on what was written before.
\<close>

lemma bind_err_triple_cong:
  "(\<And>v. triple (f v) = triple (g v)) \<Longrightarrow> triple (bind_err m f) = triple (bind_err m g)"
  by (cases m) (simp_all add: bind_err_simps)

lemma bind_err_observe_cong:
  "(\<And>v. observe (f v) = observe (g v)) \<Longrightarrow> observe (bind_err m f) = observe (bind_err m g)"
  by (cases m) (simp_all add: bind_err_simps)

lemma for_loop_triple:
  "book_title s = book_title s' \<Longrightarrow> author_name s = author_name s' \<Longrightarrow>
   isbn_string s = isbn_string s' \<Longrightarrow> triple (for_loop xs s) = triple (for_loop xs s')"
proof (induction xs arbitrary: s s')
  case Nil
  then show ?case by (simp add: triple_def)
next
  case (Cons x xs)
  have "triple (if n = 10 then Inr (s\<lparr>loop_i := Some x, isbn_string := Some x\<rparr>)
                else for_loop xs (s\<lparr>loop_i := Some x\<rparr>)) =
        triple (if n = 10 then Inr (s'\<lparr>loop_i := Some x, isbn_string := Some x\<rparr>)
                else for_loop xs (s'\<lparr>loop_i := Some x\<rparr>))" for n :: nat
  proof (cases "n = 10")
    case True
    with Cons.prems show ?thesis by (simp add: triple_def)
  next
    case False
    have "triple (for_loop xs (s\<lparr>loop_i := Some x\<rparr>)) =
          triple (for_loop xs (s'\<lparr>loop_i := Some x\<rparr>))"
      by (rule Cons.IH) (simp_all add: Cons.prems)
    with False show ?thesis by simp
  qed
  then show ?case unfolding for_loop.simps by (rule bind_err_triple_cong)
qed

lemma for_loop_observe:
  "stdout s = stdout s' \<Longrightarrow> observe (for_loop xs s) = observe (for_loop xs s')"
proof (induction xs arbitrary: s s')
  case Nil
  then show ?case by (simp add: observe_def)
next
  case (Cons x xs)
  have "observe (if n = 10 then Inr (s\<lparr>loop_i := Some x, isbn_string := Some x\<rparr>)
                else for_loop xs (s\<lparr>loop_i := Some x\<rparr>)) =
        observe (if n = 10 then Inr (s'\<lparr>loop_i := Some x, isbn_string := Some x\<rparr>)
                else for_loop xs (s'\<lparr>loop_i := Some x\<rparr>))" for n :: nat
  proof (cases "n = 10")
    case True
    with Cons.prems show ?thesis by (simp add: observe_def)
  next
    case False
    have "observe (for_loop xs (s\<lparr>loop_i := Some x\<rparr>)) =
          observe (for_loop xs (s'\<lparr>loop_i := Some x\<rparr>))"
      by (rule Cons.IH) (simp_all add: Cons.prems)
    with False show ?thesis by simp
  qed
  then show ?case unfolding for_loop.simps by (rule bind_err_observe_cong)
qed

lemma extractor_triple:
  assumes "data s = data s'"
  shows "triple (run extractor s) = triple (run extractor s')"
  unfolding run_extractor read_def assms
  by (intro bind_err_triple_cong for_loop_triple) simp_all

lemma extractor_observe:
  assumes "data s = data s'" and "stdout s = stdout s'"
  shows "observe (run extractor s) = observe (run extractor s')"
  unfolding run_extractor read_def assms(1)
  by (intro bind_err_observe_cong for_loop_observe) (simp_all add: assms(2))

text \<open>The print statement of the script, write by write.\<close>

lemma encodable_newline: "encodable enc newline"
  by (simp add: encodable_def newline_def)

lemma py_print_three:
  "py_print enc repr [t, a, i] newline newline out =
     (if \<not> encodable enc (py_str repr t) then Inl (UnicodeEncodeError out)
      else if \<not> encodable enc (py_str repr a) then
        Inl (UnicodeEncodeError (out @ py_str repr t @ newline))
      else if \<not> encodable enc (py_str repr i) then
        Inl (UnicodeEncodeError (out @ py_str repr t @ newline @ py_str repr a @ newline))
      else Inr (out @ py_str repr t @ newline @ py_str repr a @ newline @
                py_str repr i @ newline))"
  by (simp add: py_print_def py_write_def bind_err_simps encodable_newline)

lemma print_cong:
  assumes "triple r = triple r'" and "observe r = observe r'"
  shows "observe (bind_err r (stmt_print enc repr)) = observe (bind_err r' (stmt_print enc repr)) \<and>
         triple (bind_err r (stmt_print enc repr)) = triple (bind_err r' (stmt_print enc repr))"
  using assms
  by (cases r; cases r')
     (auto simp: triple_def observe_def bind_err_def stmt_print_def read_def
           split: option.splits sum.splits)

lemma main_unfold:
  assumes "net search_url = Inr r"
  shows "main net loads enc repr s =
     bind_err (loads (content r)) (\<lambda>d.
       bind_err (run extractor (s\<lparr>url := Some search_url, response := Some r, data := Some d\<rparr>))
         (stmt_print enc repr))"
proof -
  have one: "run [stmt_print enc repr] = stmt_print enc repr"
    by (rule ext) (simp add: bind_err_run_Nil)
  show ?thesis
    using assms
    by (simp add: main_def stmt_url_def stmt_response_def stmt_data_def bind_err_simps
        bind_err_assoc read_def run_append one)
qed

text \<open>Evaluating the statements on a concrete state.\<close>

lemmas stmt_defs =
  stmt_url_def stmt_response_def stmt_data_def stmt_first_result_def stmt_book_title_def
  stmt_author_name_def stmt_isbn_string_def stmt_isbn_results_def stmt_for_def stmt_print_def
  isbn_scan_def extractor_def extract_fields_def decode_extract_def main_def py_print_def
  py_write_def encodable_def read_def unbound_def lit_def

section \<open>The ISBN scan\<close>

text \<open>
  Claim C1. Whenever the first document binds \<open>isbn\<close> to a sequence of strings, the scan
  (lines 14 to 19) returns, and \<open>isbn_string\<close> is the first string of the sequence whose
  length is exactly 10: if the sequence splits into a prefix with no string of length 10,
  a string \<open>x\<close> of length 10 and any rest, the result is \<open>x\<close> whatever the rest holds, and
  the loop variable rests on \<open>x\<close>, so the scan stopped there. If no string has length 10,
  the result is the empty string.
\<close>

theorem isbn_scan_first_of_length_10:
  assumes "first_result s = Some (JObj doc)"
      and "map_of doc (lit ''isbn'') = Some (JArr (map JStr ids))"
  shows "\<exists>s'. run isbn_scan s = Inr s' \<and>
     (\<forall>pre x post. ids = pre @ x # post \<and> length x = 10 \<and> (\<forall>y\<in>set pre. length y \<noteq> 10) \<longrightarrow>
        isbn_string s' = Some (JStr x) \<and> loop_i s' = Some (JStr x)) \<and>
     ((\<forall>y\<in>set ids. length y \<noteq> 10) \<longrightarrow> isbn_string s' = Some (JStr (lit '''')))"
proof -
  let ?P = "\<lambda>x::pystr. length x = 10"
  let ?s0 = "s\<lparr>isbn_string := Some (JStr []), isbn_results := Some (JArr (map JStr ids))\<rparr>"
  let ?s' = "case find ?P ids of
            None \<Rightarrow> (if ids = [] then ?s0 else ?s0\<lparr>loop_i := Some (JStr (last ids))\<rparr>)
          | Some x \<Rightarrow> ?s0\<lparr>loop_i := Some (JStr x), isbn_string := Some (JStr x)\<rparr>"
  have run: "run isbn_scan s = Inr ?s'"
    by (simp only: isbn_scan_strings [OF assms] for_loop_strings)
  have hit: "isbn_string ?s' = Some (JStr x) \<and> loop_i ?s' = Some (JStr x)"
    if "ids = pre @ x # post" "length x = 10" "\<forall>y\<in>set pre. length y \<noteq> 10" for pre x post
  proof -
    have "find ?P ids = Some x"
      using that by (induction pre arbitrary: ids) auto
    then show ?thesis by simp
  qed
  have miss: "isbn_string ?s' = Some (JStr (lit ''''))" if "\<forall>y\<in>set ids. length y \<noteq> 10"
  proof -
    have "find ?P ids = None"
      using that by (simp add: find_None_iff)
    then show ?thesis by simp
  qed
  from run hit miss show ?thesis by blast
qed

text \<open>
  The two sequences of the specification: the second of three identifiers is the first of
  length 10; of two identifiers of length 13, none is.
\<close>

theorem isbn_scan_first_of_length_10_witness:
  "(\<exists>s'. run isbn_scan (unbound\<lparr>first_result := Some (JObj [(lit ''isbn'',
        JArr (map JStr [lit ''9780575094195'', lit ''0575094194'', lit ''1234567890123'']))])\<rparr>) = Inr s' \<and>
      isbn_string s' = Some (JStr (lit ''0575094194'')) \<and> loop_i s' = Some (JStr (lit ''0575094194''))) \<and>
   (\<exists>s'. run isbn_scan (unbound\<lparr>first_result := Some (JObj [(lit ''isbn'',
        JArr (map JStr [lit ''9780575094195'', lit ''1234567890123'']))])\<rparr>) = Inr s' \<and>
      isbn_string s' = Some (JStr (lit '''')))"
proof (intro conjI)
  let ?ids = "[lit ''9780575094195'', lit ''0575094194'', lit ''1234567890123'']"
  let ?doc = "[(lit ''isbn'', JArr (map JStr ?ids))]"
  let ?s = "unbound\<lparr>first_result := Some (JObj ?doc)\<rparr>"
  have a: "first_result ?s = Some (JObj ?doc)" by simp
  have b: "map_of ?doc (lit ''isbn'') = Some (JArr (map JStr ?ids))" by simp
  from isbn_scan_first_of_length_10 [OF a b] obtain s' where
    r: "run isbn_scan ?s = Inr s'" and
    hit: "\<forall>pre x post. ?ids = pre @ x # post \<and> length x = 10 \<and> (\<forall>y\<in>set pre. length y \<noteq> 10) \<longrightarrow>
        isbn_string s' = Some (JStr x) \<and> loop_i s' = Some (JStr x)"
    by blast
  from hit [rule_format, of "[lit ''9780575094195'']" "lit ''0575094194''" "[lit ''1234567890123'']"]
  have "isbn_string s' = Some (JStr (lit ''0575094194'')) \<and> loop_i s' = Some (JStr (lit ''0575094194''))"
    by simp
  with r show "\<exists>s'. run isbn_scan ?s = Inr s' \<and>
      isbn_string s' = Some (JStr (lit ''0575094194'')) \<and> loop_i s' = Some (JStr (lit ''0575094194''))"
    by blast
next
  let ?ids = "[lit ''9780575094195'', lit ''1234567890123'']"
  let ?doc = "[(lit ''isbn'', JArr (map JStr ?ids))]"
  let ?s = "unbound\<lparr>first_result := Some (JObj ?doc)\<rparr>"
  have a: "first_result ?s = Some (JObj ?doc)" by simp
  have b: "map_of ?doc (lit ''isbn'') = Some (JArr (map JStr ?ids))" by simp
  from isbn_scan_first_of_length_10 [OF a b] obtain s' where
    r: "run isbn_scan ?s = Inr s'" and
    miss: "(\<forall>y\<in>set ?ids. length y \<noteq> 10) \<longrightarrow> isbn_string s' = Some (JStr (lit ''''))"
    by blast
  from miss have "isbn_string s' = Some (JStr (lit ''''))" by simp
  with r show "\<exists>s'. run isbn_scan ?s = Inr s' \<and> isbn_string s' = Some (JStr (lit ''''))"
    by blast
qed

text \<open>
  Claim C2, as the code has it. When the first document binds \<open>isbn\<close> to the empty
  sequence, the scan returns and \<open>isbn_string\<close> is the empty string. When the first
  document has no \<open>isbn\<close>, \<open>get\<close> gives \<open>None\<close> and the \<open>for\<close> statement raises
  \<open>TypeError\<close>: the scan fails, it yields no ISBN at all.
\<close>

theorem isbn_empty_or_missing:
  assumes "first_result s = Some (JObj doc)"
  shows "(map_of doc (lit ''isbn'') = Some (JArr []) \<longrightarrow>
            run isbn_scan s =
              Inr (s\<lparr>isbn_string := Some (JStr (lit '''')), isbn_results := Some (JArr [])\<rparr>)) \<and>
         (map_of doc (lit ''isbn'') = None \<longrightarrow> run isbn_scan s = Inl TypeError)"
  using assms
  by (simp add: isbn_scan_def stmt_isbn_string_def stmt_isbn_results_def stmt_for_def
      bind_err_simps read_def)

theorem isbn_empty_or_missing_witness:
  "run isbn_scan (unbound\<lparr>first_result := Some (JObj [(lit ''isbn'', JArr [])])\<rparr>) =
     Inr (unbound\<lparr>first_result := Some (JObj [(lit ''isbn'', JArr [])]),
            isbn_string := Some (JStr (lit '''')), isbn_results := Some (JArr [])\<rparr>) \<and>
   run isbn_scan (unbound\<lparr>first_result :=
       Some (JObj [(lit ''title'', JStr (lit ''Clans of the Alphane Moon''))])\<rparr>) = Inl TypeError"
  using isbn_empty_or_missing [of "unbound\<lparr>first_result := Some (JObj [(lit ''isbn'', JArr [])])\<rparr>"
      "[(lit ''isbn'', JArr [])]"]
    isbn_empty_or_missing [of "unbound\<lparr>first_result :=
       Some (JObj [(lit ''title'', JStr (lit ''Clans of the Alphane Moon''))])\<rparr>"
      "[(lit ''title'', JStr (lit ''Clans of the Alphane Moon''))]"]
  by simp

text \<open>
  The claim as written fails: a body whose first document has a title and an author but
  no \<open>isbn\<close> makes the extractor raise \<open>TypeError\<close>.
\<close>

theorem isbn_missing_counterexample:
  "extract_fields
     (JObj [(lit ''docs'', JArr [JObj [(lit ''title'', JStr (lit ''Clans of the Alphane Moon'')),
                                   (lit ''author_name'', JArr [JStr (lit ''Philip K. Dick'')])]])])
     unbound = Inl TypeError"
  by (simp add: stmt_defs bind_err_simps)

section \<open>The first document and the author\<close>

text \<open>
  Claim C3, as the code has it. A decoded mapping without \<open>docs\<close> makes the extractor
  raise \<open>TypeError\<close> (\<open>get\<close> gives \<open>None\<close>, which is not subscriptable), one whose \<open>docs\<close> is
  the empty sequence makes it raise \<open>IndexError\<close>; in neither case is a default returned.
  In particular the decoded body \<open>{}\<close> fails with \<open>TypeError\<close>.
\<close>

theorem docs_missing_or_empty_fatal:
  "(map_of root (lit ''docs'') = None \<longrightarrow> extract_fields (JObj root) s = Inl TypeError) \<and>
   (map_of root (lit ''docs'') = Some (JArr []) \<longrightarrow> extract_fields (JObj root) s = Inl IndexError) \<and>
   extract_fields (JObj []) s = Inl TypeError"
  by (simp add: extract_fields_def run_extractor bind_err_simps read_def)

theorem docs_missing_or_empty_fatal_witness:
  "extract_fields (JObj [(lit ''numFound'', JInt 0)]) unbound = Inl TypeError \<and>
   extract_fields (JObj [(lit ''numFound'', JInt 0), (lit ''docs'', JArr [])]) unbound = Inl IndexError"
  using docs_missing_or_empty_fatal [of "[(lit ''numFound'', JInt 0)]" unbound]
    docs_missing_or_empty_fatal [of "[(lit ''numFound'', JInt 0), (lit ''docs'', JArr [])]" unbound]
  by simp

text \<open>
  The claim as written names an index or key error; on the body \<open>{}\<close> the exception is
  neither.
\<close>

theorem docs_missing_counterexample:
  "extract_fields (JObj []) unbound = Inl TypeError \<and>
   TypeError \<noteq> IndexError \<and> TypeError \<noteq> KeyError"
  by (simp add: stmt_defs bind_err_simps)

text \<open>
  Claim C4. When the first document has no \<open>author_name\<close>, or binds it to the empty
  sequence, the extractor raises (\<open>TypeError\<close> and \<open>IndexError\<close>): it yields no default
  author, whatever the other fields of the document are.
\<close>

theorem author_name_missing_or_empty_fatal:
  assumes "map_of root (lit ''docs'') = Some (JArr (JObj doc # rest))"
  shows "(map_of doc (lit ''author_name'') = None \<longrightarrow> extract_fields (JObj root) s = Inl TypeError) \<and>
    (map_of doc (lit ''author_name'') = Some (JArr []) \<longrightarrow>
       extract_fields (JObj root) s = Inl IndexError)"
  using assms
  by (simp add: extract_fields_def run_extractor bind_err_simps read_def)

theorem author_name_missing_or_empty_fatal_witness:
  "extract_fields (JObj [(lit ''docs'', JArr [JObj [(lit ''title'', JStr (lit ''Clans of the Alphane Moon'')),
       (lit ''isbn'', JArr [JStr (lit ''0441116802'')])]])]) unbound = Inl TypeError \<and>
   extract_fields (JObj [(lit ''docs'', JArr [JObj [(lit ''title'', JStr (lit ''Clans of the Alphane Moon'')),
       (lit ''author_name'', JArr []), (lit ''isbn'', JArr [JStr (lit ''0441116802'')])]])]) unbound =
     Inl IndexError"
  using author_name_missing_or_empty_fatal
      [of "[(lit ''docs'', JArr [JObj [(lit ''title'', JStr (lit ''Clans of the Alphane Moon'')),
            (lit ''isbn'', JArr [JStr (lit ''0441116802'')])]])]"
          "[(lit ''title'', JStr (lit ''Clans of the Alphane Moon'')),
            (lit ''isbn'', JArr [JStr (lit ''0441116802'')])]" "[]" unbound]
    author_name_missing_or_empty_fatal
      [of "[(lit ''docs'', JArr [JObj [(lit ''title'', JStr (lit ''Clans of the Alphane Moon'')),
            (lit ''author_name'', JArr []), (lit ''isbn'', JArr [JStr (lit ''0441116802'')])]])]"
          "[(lit ''title'', JStr (lit ''Clans of the Alphane Moon'')),
            (lit ''author_name'', JArr []), (lit ''isbn'', JArr [JStr (lit ''0441116802'')])]" "[]" unbound]
  by simp

text \<open>
  Claim C5. When the first document binds \<open>author_name\<close> to a non-empty sequence, lines 8
  to 12 return with \<open>author_name\<close> bound to its first element, whatever the later elements
  are, and every extraction that completes returns that element as the author.
\<close>

theorem author_name_first_element:
  assumes "map_of root (lit ''docs'') = Some (JArr (JObj doc # rest))"
      and "map_of doc (lit ''author_name'') = Some (JArr (a # others))"
  shows "(\<exists>s1. run [stmt_first_result, stmt_book_title, stmt_author_name]
                 (s\<lparr>data := Some (JObj root)\<rparr>) = Inr s1 \<and> author_name s1 = Some a) \<and>
         (\<forall>s'. extract_fields (JObj root) s = Inr s' \<longrightarrow> author_name s' = Some a)"
proof (intro conjI allI impI)
  show "\<exists>s1. run [stmt_first_result, stmt_book_title, stmt_author_name]
                 (s\<lparr>data := Some (JObj root)\<rparr>) = Inr s1 \<and> author_name s1 = Some a"
    using assms
    by (simp add: stmt_first_result_def stmt_book_title_def stmt_author_name_def
        bind_err_simps read_def)
next
  fix s'
  assume ok: "extract_fields (JObj root) s = Inr s'"
  let ?r = "case map_of doc (lit ''isbn'') of None \<Rightarrow> JNull | Some v \<Rightarrow> v"
  let ?t = "case map_of doc (lit ''title'') of None \<Rightarrow> JNull | Some v \<Rightarrow> v"
  let ?s1 = "s\<lparr>data := Some (JObj root), first_result := Some (JObj doc),
     book_title := Some ?t, author_name := Some a, isbn_string := Some (JStr []),
     isbn_results := Some ?r\<rparr>"
  have eq: "extract_fields (JObj root) s = bind_err (py_iter ?r) (\<lambda>xs. for_loop xs ?s1)"
    using assms by (simp add: extract_fields_def run_extractor bind_err_simps read_def)
  show "author_name s' = Some a"
  proof (cases "py_iter ?r")
    case (Inl e)
    with ok eq show ?thesis by (simp add: bind_err_simps)
  next
    case (Inr xs)
    with ok eq have "for_loop xs ?s1 = Inr s'" by (simp add: bind_err_simps)
    from for_loop_keeps [OF this] show ?thesis by simp
  qed
qed

text \<open>The sample document lists two authors; the extraction completes with the first.\<close>

theorem author_name_first_element_witness:
  "(\<exists>s1. run [stmt_first_result, stmt_book_title, stmt_author_name]
          (unbound\<lparr>data := Some sample_data\<rparr>) = Inr s1 \<and>
        author_name s1 = Some (JStr (lit ''Philip K. Dick''))) \<and>
   (\<exists>s'. extract_fields sample_data unbound = Inr s' \<and>
        author_name s' = Some (JStr (lit ''Philip K. Dick'')))"
proof -
  let ?root = "[(lit ''numFound'', JInt 1), (lit ''docs'', JArr [JObj sample_doc])]"
  have a: "map_of ?root (lit ''docs'') = Some (JArr (JObj sample_doc # []))" by simp
  have b: "map_of sample_doc (lit ''author_name'') =
      Some (JArr (JStr (lit ''Philip K. Dick'') # [JStr (lit ''Someone Else'')]))"
    by (simp add: sample_doc_def)
  note th = author_name_first_element [OF a b, of unbound, folded sample_data_def]
  obtain s' where ok: "extract_fields sample_data unbound = Inr s'"
    by (simp add: sample_data_def sample_doc_def stmt_defs bind_err_simps)
  with th have "author_name s' = Some (JStr (lit ''Philip K. Dick''))" by blast
  with ok th show ?thesis by blast
qed

section \<open>The title\<close>

text \<open>
  Claim C6. When the first document has no \<open>title\<close>, the title statement (line 10) does
  not raise: it binds \<open>book_title\<close> to \<open>None\<close>, and the rest of the extraction, the author
  and the ISBN scan, runs from that state.
\<close>

theorem title_absent_tolerated:
  assumes "first_result s = Some (JObj doc)" and "map_of doc (lit ''title'') = None"
  shows "stmt_book_title s = Inr (s\<lparr>book_title := Some JNull\<rparr>) \<and>
         run (stmt_book_title # stmt_author_name # isbn_scan) s =
           run (stmt_author_name # isbn_scan) (s\<lparr>book_title := Some JNull\<rparr>)"
  using assms by (simp add: stmt_book_title_def bind_err_simps read_def)

text \<open>A document with an author and identifiers but no title: the other two fields arrive.\<close>

theorem title_absent_tolerated_witness:
  "\<exists>s'. run (stmt_book_title # stmt_author_name # isbn_scan)
          (unbound\<lparr>first_result := Some (JObj [(lit ''author_name'', JArr [JStr (lit ''Philip K. Dick'')]),
             (lit ''isbn'', JArr [JStr (lit ''0441116802'')])])\<rparr>) = Inr s' \<and>
        book_title s' = Some JNull \<and> author_name s' = Some (JStr (lit ''Philip K. Dick'')) \<and>
        isbn_string s' = Some (JStr (lit ''0441116802''))"
proof -
  let ?doc = "[(lit ''author_name'', JArr [JStr (lit ''Philip K. Dick'')]),
             (lit ''isbn'', JArr [JStr (lit ''0441116802'')])]"
  let ?s = "unbound\<lparr>first_result := Some (JObj ?doc)\<rparr>"
  have a: "first_result ?s = Some (JObj ?doc)" by simp
  have b: "map_of ?doc (lit ''title'') = None" by simp
  from title_absent_tolerated [OF a b]
  have "run (stmt_book_title # stmt_author_name # isbn_scan) ?s =
        run (stmt_author_name # isbn_scan) (?s\<lparr>book_title := Some JNull\<rparr>)"
    by blast
  then show ?thesis
    by (simp add: stmt_defs bind_err_simps)
qed

section \<open>The printer\<close>

text \<open>
  Claim C7, as the code has it. For every extracted triple whose three values, as \<open>str\<close>
  writes them, standard output can encode, the print statement appends to standard output
  the title, the author and the ISBN, in that order, each followed by one line break, and
  nothing else: no label, no other text. These are exactly three lines whenever none of
  the three written values contains a line break itself. When standard output cannot
  encode one of the values, the statement raises \<open>UnicodeEncodeError\<close> at that value: only
  the values before it, each with its line break, have been written.
\<close>

theorem print_three_values:
  assumes "book_title s = Some t" and "author_name s = Some a" and "isbn_string s = Some i"
  shows "(encodable enc (py_str repr t) \<and> encodable enc (py_str repr a) \<and>
          encodable enc (py_str repr i) \<longrightarrow>
            stmt_print enc repr s =
              Inr (s\<lparr>stdout := stdout s @ py_str repr t @ newline @ py_str repr a @ newline @
                                  py_str repr i @ newline\<rparr>)) \<and>
         (\<not> encodable enc (py_str repr t) \<longrightarrow>
            stmt_print enc repr s = Inl (UnicodeEncodeError (stdout s))) \<and>
         (encodable enc (py_str repr t) \<and> \<not> encodable enc (py_str repr a) \<longrightarrow>
            stmt_print enc repr s =
              Inl (UnicodeEncodeError (stdout s @ py_str repr t @ newline))) \<and>
         (encodable enc (py_str repr t) \<and> encodable enc (py_str repr a) \<and>
          \<not> encodable enc (py_str repr i) \<longrightarrow>
            stmt_print enc repr s =
              Inl (UnicodeEncodeError
                (stdout s @ py_str repr t @ newline @ py_str repr a @ newline))) \<and>
         (10 \<notin> set (py_str repr t) \<union> set (py_str repr a) \<union> set (py_str repr i) \<longrightarrow>
            lines_of (py_str repr t @ newline @ py_str repr a @ newline @ py_str repr i @ newline) =
              [py_str repr t, py_str repr a, py_str repr i])"
proof -
  have pr: "stmt_print enc repr s =
      bind_err (py_print enc repr [t, a, i] newline newline (stdout s))
        (\<lambda>out. Inr (s\<lparr>stdout := out\<rparr>))"
    using assms by (simp add: stmt_print_def bind_err_simps read_def)
  have lines: "lines_of (py_str repr t @ newline @ py_str repr a @ newline @
        py_str repr i @ newline) = [py_str repr t, py_str repr a, py_str repr i]"
    if "10 \<notin> set (py_str repr t) \<union> set (py_str repr a) \<union> set (py_str repr i)"
    using that by (simp add: lines_of_def newline_def split_lines_line)
  show ?thesis
    unfolding pr py_print_three using lines by (simp add: bind_err_simps)
qed

text \<open>
  The triple of the specification, on a UTF-8 standard output: the output is those three
  values on three lines.
\<close>

theorem print_three_values_witness:
  "stmt_print utf8_strict no_repr
     (unbound\<lparr>book_title := Some (JStr (lit ''Clans of the Alphane Moon'')),
        author_name := Some (JStr (lit ''Philip K. Dick'')),
        isbn_string := Some (JStr (lit ''0441116802''))\<rparr>) =
   Inr (unbound\<lparr>book_title := Some (JStr (lit ''Clans of the Alphane Moon'')),
        author_name := Some (JStr (lit ''Philip K. Dick'')),
        isbn_string := Some (JStr (lit ''0441116802'')),
        stdout := lit ''Clans of the Alphane Moon'' @ newline @ lit ''Philip K. Dick'' @ newline @
                  lit ''0441116802'' @ newline\<rparr>) \<and>
   lines_of (lit ''Clans of the Alphane Moon'' @ newline @ lit ''Philip K. Dick'' @ newline @
             lit ''0441116802'' @ newline) =
     [lit ''Clans of the Alphane Moon'', lit ''Philip K. Dick'', lit ''0441116802''] \<and>
   stmt_print utf8_strict no_repr
     (unbound\<lparr>book_title := Some (JStr (lit ''Clans of the Alphane Moon'')),
        author_name := Some (JStr [0xD800]),
        isbn_string := Some (JStr (lit ''0441116802''))\<rparr>) =
   Inl (UnicodeEncodeError (lit ''Clans of the Alphane Moon'' @ newline))"
proof -
  let ?s = "unbound\<lparr>book_title := Some (JStr (lit ''Clans of the Alphane Moon'')),
        author_name := Some (JStr (lit ''Philip K. Dick'')),
        isbn_string := Some (JStr (lit ''0441116802''))\<rparr>"
  let ?s' = "unbound\<lparr>book_title := Some (JStr (lit ''Clans of the Alphane Moon'')),
        author_name := Some (JStr [0xD800]),
        isbn_string := Some (JStr (lit ''0441116802''))\<rparr>"
  have t: "book_title ?s = Some (JStr (lit ''Clans of the Alphane Moon''))" by simp
  have a: "author_name ?s = Some (JStr (lit ''Philip K. Dick''))" by simp
  have i: "isbn_string ?s = Some (JStr (lit ''0441116802''))" by simp
  have t': "book_title ?s' = Some (JStr (lit ''Clans of the Alphane Moon''))" by simp
  have a': "author_name ?s' = Some (JStr [0xD800])" by simp
  have i': "isbn_string ?s' = Some (JStr (lit ''0441116802''))" by simp
  from print_three_values [OF t a i, of utf8_strict no_repr]
    print_three_values [OF t' a' i', of utf8_strict no_repr]
  show ?thesis
    by (simp add: unbound_def encodable_def utf8_strict_def lit_def newline_def)
qed

text \<open>
  The claim as written fails twice. For a title that holds a line break the three values
  take four lines. For a title standard output cannot encode, here the lone surrogate that
  the JSON escape \<^verbatim>\<open>\ud800\<close> decodes to, on a UTF-8 standard output, the statement raises
  and nothing is written.
\<close>

theorem print_three_lines_counterexample:
  "observe (stmt_print utf8_strict no_repr
     (unbound\<lparr>book_title := Some (JStr (lit ''Clans of the'' @ newline @ lit ''Alphane Moon'')),
        author_name := Some (JStr (lit ''Philip K. Dick'')),
        isbn_string := Some (JStr (lit ''0441116802''))\<rparr>)) =
   Inr (lit ''Clans of the'' @ newline @ lit ''Alphane Moon'' @ newline @
        lit ''Philip K. Dick'' @ newline @ lit ''0441116802'' @ newline) \<and>
   lines_of (lit ''Clans of the'' @ newline @ lit ''Alphane Moon'' @ newline @
             lit ''Philip K. Dick'' @ newline @ lit ''0441116802'' @ newline) =
     [lit ''Clans of the'', lit ''Alphane Moon'', lit ''Philip K. Dick'', lit ''0441116802''] \<and>
   observe (stmt_print utf8_strict no_repr
     (unbound\<lparr>book_title := Some (JStr [0xD800]),
        author_name := Some (JStr (lit ''Philip K. Dick'')),
        isbn_string := Some (JStr (lit ''0441116802''))\<rparr>)) =
   Inl (UnicodeEncodeError [])"
  by (simp add: stmt_defs bind_err_simps observe_def lines_of_def newline_def utf8_strict_def)

text \<open>
  Claim C10, as the code has it. When the first document has no \<open>title\<close> and both the
  author statement and the ISBN scan succeed, the script reaches its print statement, and
  the first line it writes is the four characters \<open>None\<close>, whatever standard output can
  encode: followed by the author and the ISBN when it can encode both, and otherwise by
  what precedes the value it cannot encode.
\<close>

theorem absent_title_prints_None:
  assumes "first_result s = Some (JObj doc)" and "map_of doc (lit ''title'') = None"
      and "stmt_author_name (s\<lparr>book_title := Some JNull\<rparr>) = Inr s1"
      and "run isbn_scan s1 = Inr s2"
  shows "\<exists>a i. author_name s2 = Some a \<and> isbn_string s2 = Some i \<and>
     (\<exists>rest.
        observe (run (stmt_book_title # stmt_author_name # isbn_scan @ [stmt_print enc repr]) s) =
          Inr (stdout s @ lit ''None'' @ newline @ rest) \<or>
        observe (run (stmt_book_title # stmt_author_name # isbn_scan @ [stmt_print enc repr]) s) =
          Inl (UnicodeEncodeError (stdout s @ lit ''None'' @ newline @ rest))) \<and>
     (encodable enc (py_str repr a) \<and> encodable enc (py_str repr i) \<longrightarrow>
        run (stmt_book_title # stmt_author_name # isbn_scan @ [stmt_print enc repr]) s =
          Inr (s2\<lparr>stdout := stdout s @ lit ''None'' @ newline @
                              py_str repr a @ newline @ py_str repr i @ newline\<rparr>)) \<and>
     (\<not> encodable enc (py_str repr a) \<longrightarrow>
        run (stmt_book_title # stmt_author_name # isbn_scan @ [stmt_print enc repr]) s =
          Inl (UnicodeEncodeError (stdout s @ lit ''None'' @ newline))) \<and>
     (encodable enc (py_str repr a) \<and> \<not> encodable enc (py_str repr i) \<longrightarrow>
        run (stmt_book_title # stmt_author_name # isbn_scan @ [stmt_print enc repr]) s =
          Inl (UnicodeEncodeError
            (stdout s @ lit ''None'' @ newline @ py_str repr a @ newline)))"
proof -
  let ?run = "run (stmt_book_title # stmt_author_name # isbn_scan @ [stmt_print enc repr]) s"
  let ?pre = "stdout s @ lit ''None'' @ newline"
  from stmt_author_name_result [OF assms(3)] obtain a where
    s1: "s1 = s\<lparr>book_title := Some JNull, author_name := Some a\<rparr>" by auto
  from isbn_scan_result [OF assms(4)] obtain i where
    s2: "book_title s2 = Some JNull" "author_name s2 = Some a" "stdout s2 = stdout s"
      "isbn_string s2 = Some i"
    by (auto simp: s1)
  have none: "encodable enc (lit ''None'')"
    by (simp add: encodable_def lit_def)
  have title: "stmt_book_title s = Inr (s\<lparr>book_title := Some JNull\<rparr>)"
    using assms(1,2) by (simp add: stmt_book_title_def bind_err_simps read_def)
  have "?run = bind_err (run isbn_scan s1) (run [stmt_print enc repr])"
    by (simp add: title assms(3) bind_err_simps run_append)
  also have "\<dots> = stmt_print enc repr s2"
    by (simp add: assms(4) bind_err_simps bind_err_run_Nil)
  also have "\<dots> = bind_err (py_print enc repr [JNull, a, i] newline newline (stdout s))
        (\<lambda>out. Inr (s2\<lparr>stdout := out\<rparr>))"
    using s2 by (simp add: stmt_print_def bind_err_simps read_def)
  finally have run: "?run =
      bind_err (py_print enc repr [JNull, a, i] newline newline (stdout s))
        (\<lambda>out. Inr (s2\<lparr>stdout := out\<rparr>))" .
  have both: "?run = Inr (s2\<lparr>stdout := ?pre @ py_str repr a @ newline @ py_str repr i @ newline\<rparr>)"
    if "encodable enc (py_str repr a)" "encodable enc (py_str repr i)"
    unfolding run py_print_three using that none by (simp add: bind_err_simps)
  have no_author: "?run = Inl (UnicodeEncodeError ?pre)"
    if "\<not> encodable enc (py_str repr a)"
    unfolding run py_print_three using that none by (simp add: bind_err_simps)
  have no_isbn: "?run = Inl (UnicodeEncodeError (?pre @ py_str repr a @ newline))"
    if "encodable enc (py_str repr a)" "\<not> encodable enc (py_str repr i)"
    unfolding run py_print_three using that none by (simp add: bind_err_simps)
  have first: "\<exists>rest. observe ?run = Inr (?pre @ rest) \<or>
      observe ?run = Inl (UnicodeEncodeError (?pre @ rest))"
  proof (cases "encodable enc (py_str repr a)")
    case False
    from no_author [OF this] have "observe ?run = Inl (UnicodeEncodeError (?pre @ []))"
      by (simp add: observe_def)
    then show ?thesis by blast
  next
    case a: True
    show ?thesis
    proof (cases "encodable enc (py_str repr i)")
      case False
      from no_isbn [OF a this]
      have "observe ?run = Inl (UnicodeEncodeError (?pre @ (py_str repr a @ newline)))"
        by (simp add: observe_def)
      then show ?thesis by blast
    next
      case True
      from both [OF a this]
      have "observe ?run = Inr (?pre @ (py_str repr a @ newline @ py_str repr i @ newline))"
        by (simp add: observe_def)
      then show ?thesis by blast
    qed
  qed
  from s2 first both no_author no_isbn show ?thesis
    by (intro exI [of _ a] exI [of _ i]) simp
qed

theorem absent_title_prints_None_witness:
  "(\<exists>s'. run (stmt_book_title # stmt_author_name # isbn_scan @ [stmt_print utf8_strict no_repr])
          (unbound\<lparr>first_result := Some (JObj [(lit ''author_name'', JArr [JStr (lit ''Philip K. Dick'')]),
             (lit ''isbn'', JArr [JStr (lit ''0441116802'')])])\<rparr>) = Inr s' \<and>
        stdout s' = lit ''None'' @ newline @ lit ''Philip K. Dick'' @ newline @
                    lit ''0441116802'' @ newline) \<and>
   run (stmt_book_title # stmt_author_name # isbn_scan @ [stmt_print utf8_strict no_repr])
          (unbound\<lparr>first_result := Some (JObj [(lit ''author_name'', JArr [JStr [0xD800]]),
             (lit ''isbn'', JArr [JStr (lit ''0441116802'')])])\<rparr>) =
     Inl (UnicodeEncodeError (lit ''None'' @ newline))"
proof (intro conjI)
  let ?doc = "[(lit ''author_name'', JArr [JStr (lit ''Philip K. Dick'')]),
             (lit ''isbn'', JArr [JStr (lit ''0441116802'')])]"
  let ?s = "unbound\<lparr>first_result := Some (JObj ?doc)\<rparr>"
  let ?s1 = "?s\<lparr>book_title := Some JNull, author_name := Some (JStr (lit ''Philip K. Dick''))\<rparr>"
  let ?s2 = "?s1\<lparr>isbn_string := Some (JStr (lit ''0441116802'')),
     isbn_results := Some (JArr [JStr (lit ''0441116802'')]),
     loop_i := Some (JStr (lit ''0441116802''))\<rparr>"
  have a: "first_result ?s = Some (JObj ?doc)" by simp
  have b: "map_of ?doc (lit ''title'') = None" by (simp add: lit_def)
  have c: "stmt_author_name (?s\<lparr>book_title := Some JNull\<rparr>) = Inr ?s1"
    by (simp add: stmt_defs bind_err_simps)
  have d: "run isbn_scan ?s1 = Inr ?s2"
    by (simp add: stmt_defs bind_err_simps)
  from absent_title_prints_None [OF a b c d, of utf8_strict no_repr]
  show "\<exists>s'. run (stmt_book_title # stmt_author_name # isbn_scan @
          [stmt_print utf8_strict no_repr]) ?s = Inr s' \<and>
        stdout s' = lit ''None'' @ newline @ lit ''Philip K. Dick'' @ newline @
                    lit ''0441116802'' @ newline"
    by (auto simp: unbound_def encodable_def utf8_strict_def lit_def)
next
  let ?doc = "[(lit ''author_name'', JArr [JStr [0xD800]]),
             (lit ''isbn'', JArr [JStr (lit ''0441116802'')])]"
  let ?s = "unbound\<lparr>first_result := Some (JObj ?doc)\<rparr>"
  let ?s1 = "?s\<lparr>book_title := Some JNull, author_name := Some (JStr [0xD800])\<rparr>"
  let ?s2 = "?s1\<lparr>isbn_string := Some (JStr (lit ''0441116802'')),
     isbn_results := Some (JArr [JStr (lit ''0441116802'')]),
     loop_i := Some (JStr (lit ''0441116802''))\<rparr>"
  have a: "first_result ?s = Some (JObj ?doc)" by simp
  have b: "map_of ?doc (lit ''title'') = None" by (simp add: lit_def)
  have c: "stmt_author_name (?s\<lparr>book_title := Some JNull\<rparr>) = Inr ?s1"
    by (simp add: stmt_defs bind_err_simps)
  have d: "run isbn_scan ?s1 = Inr ?s2"
    by (simp add: stmt_defs bind_err_simps)
  from absent_title_prints_None [OF a b c d, of utf8_strict no_repr]
  show "run (stmt_book_title # stmt_author_name # isbn_scan @
          [stmt_print utf8_strict no_repr]) ?s =
     Inl (UnicodeEncodeError (lit ''None'' @ newline))"
    by (auto simp: unbound_def encodable_def utf8_strict_def)
qed

text \<open>
  The claim as written fails: with no \<open>title\<close>, an author and no \<open>isbn\<close>, the author
  statement succeeds, yet the script raises before it prints, so no line is written.
\<close>

theorem absent_title_no_output_counterexample:
  \<open>main (\<lambda>u. Inr \<lparr>status_code = 200,
                   content = ''{"docs": [{"author_name": ["Philip K. Dick"]}]}''\<rparr>)
        (\<lambda>b. if b = ''{"docs": [{"author_name": ["Philip K. Dick"]}]}''
             then Inr (JObj [(lit ''docs'',
               JArr [JObj [(lit ''author_name'', JArr [JStr (lit ''Philip K. Dick'')])]])])
             else Inl JSONDecodeError)
        utf8_strict no_repr unbound = Inl TypeError\<close>
  by (simp add: stmt_defs bind_err_simps)

section \<open>Determinism and the status code\<close>

text \<open>
  Claim C8. Decoding the body of a response and extracting (lines 7 to 19) gives a triple,
  or an exception, that depends on the body alone: two runs on the same response from any
  two states of the variables agree, and a second run started from the state the first
  run left returns the triple the first run returned.
\<close>

theorem decode_extract_deterministic:
  "triple (decode_extract loads r s) = triple (decode_extract loads r s') \<and>
   (decode_extract loads r s = Inr s1 \<longrightarrow>
      triple (decode_extract loads r s1) = triple (Inr s1))"
proof -
  have eq: "triple (decode_extract loads r t) = triple (decode_extract loads r t')" for t t'
    unfolding decode_extract_def
    by (simp add: stmt_data_def bind_err_simps bind_err_assoc read_def)
       (intro bind_err_triple_cong extractor_triple, simp)
  show ?thesis
  proof (intro conjI impI)
    show "triple (decode_extract loads r s) = triple (decode_extract loads r s')" by (rule eq)
  next
    assume "decode_extract loads r s = Inr s1"
    then show "triple (decode_extract loads r s1) = triple (Inr s1)"
      using eq [of s1 s] by simp
  qed
qed

text \<open>The sample body, decoded and extracted twice in a row.\<close>

theorem decode_extract_deterministic_witness:
  "\<exists>s1. decode_extract sample_loads \<lparr>status_code = 200, content = sample_body\<rparr> unbound = Inr s1 \<and>
     triple (decode_extract sample_loads \<lparr>status_code = 200, content = sample_body\<rparr> s1) =
       Inr (Some (JStr (lit ''Clans of the Alphane Moon'')), Some (JStr (lit ''Philip K. Dick'')),
            Some (JStr (lit ''0441116802'')))"
proof -
  let ?r = "\<lparr>status_code = 200, content = sample_body\<rparr>"
  obtain s1 where ok: "decode_extract sample_loads ?r unbound = Inr s1"
    and t: "triple (Inr s1) = Inr (Some (JStr (lit ''Clans of the Alphane Moon'')),
      Some (JStr (lit ''Philip K. Dick'')), Some (JStr (lit ''0441116802'')))"
    by (simp add: sample_loads_body sample_data_def sample_doc_def stmt_defs bind_err_simps
        triple_def)
  from decode_extract_deterministic [of sample_loads ?r unbound unbound s1] ok
  have "triple (decode_extract sample_loads ?r s1) = triple (Inr s1)" by blast
  with ok t show ?thesis by auto
qed

text \<open>
  Claim C9. Two responses to the search request with the same body make the script behave
  the same, whatever their status codes: the same exception, or the same text on standard
  output and the same three values. The status code is never read.
\<close>

theorem status_code_not_inspected:
  assumes "net1 search_url = Inr r1" and "net2 search_url = Inr r2"
      and "content r1 = content r2"
  shows "observe (main net1 loads enc repr s) = observe (main net2 loads enc repr s) \<and>
         triple (main net1 loads enc repr s) = triple (main net2 loads enc repr s)"
proof -
  have step:
    "observe (bind_err (run extractor
        (s\<lparr>url := Some search_url, response := Some r1, data := Some d\<rparr>)) (stmt_print enc repr)) =
     observe (bind_err (run extractor
        (s\<lparr>url := Some search_url, response := Some r2, data := Some d\<rparr>)) (stmt_print enc repr)) \<and>
     triple (bind_err (run extractor
        (s\<lparr>url := Some search_url, response := Some r1, data := Some d\<rparr>)) (stmt_print enc repr)) =
     triple (bind_err (run extractor
        (s\<lparr>url := Some search_url, response := Some r2, data := Some d\<rparr>)) (stmt_print enc repr))"
    for d
    by (rule print_cong) (simp_all add: extractor_triple extractor_observe)
  show ?thesis
    unfolding main_unfold [of net1 r1, OF assms(1)] main_unfold [of net2 r2, OF assms(2)] assms(3)
    by (intro conjI bind_err_triple_cong bind_err_observe_cong) (simp_all add: step)
qed

text \<open>The sample body under the codes 200 and 404: the same three lines are printed.\<close>

theorem status_code_not_inspected_witness:
  "observe (main (sample_net 200) sample_loads utf8_strict no_repr unbound) =
     observe (main (sample_net 404) sample_loads utf8_strict no_repr unbound) \<and>
   observe (main (sample_net 404) sample_loads utf8_strict no_repr unbound) =
     Inr (lit ''Clans of the Alphane Moon'' @ newline @ lit ''Philip K. Dick'' @ newline @
          lit ''0441116802'' @ newline)"
proof -
  have a: "sample_net 200 search_url = Inr \<lparr>status_code = 200, content = sample_body\<rparr>"
    by (rule sample_net_url)
  have b: "sample_net 404 search_url = Inr \<lparr>status_code = 404, content = sample_body\<rparr>"
    by (rule sample_net_url)
  have c: "content \<lparr>status_code = 200, content = sample_body\<rparr> =
           content \<lparr>status_code = 404, content = sample_body\<rparr>"
    by simp
  have out: "observe (main (sample_net 404) sample_loads utf8_strict no_repr unbound) =
     Inr (lit ''Clans of the Alphane Moon'' @ newline @ lit ''Philip K. Dick'' @ newline @
          lit ''0441116802'' @ newline)"
    by (simp add: sample_net_url sample_loads_body sample_data_def sample_doc_def stmt_defs
        bind_err_simps observe_def utf8_strict_def newline_def)
  from status_code_not_inspected [of "sample_net 200" "\<lparr>status_code = 200, content = sample_body\<rparr>"
      "sample_net 404" "\<lparr>status_code = 404, content = sample_body\<rparr>" sample_loads utf8_strict
      no_repr unbound, OF a b c] out
  show ?thesis by blast
qed

end
